theory Spec2Isabelle
  imports Main
begin

section \<open>Clojure values\<close>

text \<open>
  The argument maps handed to \<^verbatim>\<open>perform-action!\<close> are parsed request bodies: nil, booleans,
  integers, strings, keywords, vectors and maps. A keyword is kept by its printed name
  without the colon (\<^verbatim>\<open>:row/create\<close> is \<open>VKw ''row/create''\<close>). A map is an association
  list read from the left, so the first binding of a key is the one \<^verbatim>\<open>get\<close> sees.
  The keys of the argument maps are plain keywords such as \<^verbatim>\<open>:database\<close>;
  \<^verbatim>\<open>s/keys\<close> would also look namespace-qualified keys up in the global spec registry, and
  maps carrying such keys are outside this development.
\<close>

datatype val =
    VNil
  | VBool bool
  | VInt int
  | VStr string
  | VKw string
  | VVec "val list"
  | VMap "(val \<times> val) list"

definition truthy :: "val \<Rightarrow> bool" where
  "truthy v = (v \<noteq> VNil \<and> v \<noteq> VBool False)"

text \<open>\<^verbatim>\<open>(keyword x)\<close>: a keyword is returned as it is, a string is interned, anything else
  gives nil.\<close>

fun keyword :: "val \<Rightarrow> val" where
  "keyword (VKw k) = VKw k"
| "keyword (VStr s) = VKw s"
| "keyword _ = VNil"

text \<open>\<^verbatim>\<open>(get m k)\<close>, which is also what the map destructuring \<^verbatim>\<open>{x :key} m\<close> expands to: nil
  for a missing key and for anything that is not associative.\<close>

fun clj_get :: "val \<Rightarrow> val \<Rightarrow> val" where
  "clj_get (VMap kvs) k = (case map_of kvs k of Some v \<Rightarrow> v | None \<Rightarrow> VNil)"
| "clj_get (VVec xs) (VInt i) = (if 0 \<le> i \<and> i < int (length xs) then xs ! nat i else VNil)"
| "clj_get _ _ = VNil"

fun contains_p :: "val \<Rightarrow> val \<Rightarrow> bool" where
  "contains_p (VMap kvs) k = (map_of kvs k \<noteq> None)"
| "contains_p (VVec xs) (VInt i) = (0 \<le> i \<and> i < int (length xs))"
| "contains_p _ _ = False"

fun integer_p :: "val \<Rightarrow> bool" where
  "integer_p (VInt _) = True"
| "integer_p _ = False"

fun pos_p :: "val \<Rightarrow> bool" where
  "pos_p (VInt i) = (0 < i)"
| "pos_p _ = False"

fun keyword_p :: "val \<Rightarrow> bool" where
  "keyword_p (VKw _) = True"
| "keyword_p _ = False"

fun vector_p :: "val \<Rightarrow> bool" where
  "vector_p (VVec _) = True"
| "vector_p _ = False"

fun map_p :: "val \<Rightarrow> bool" where
  "map_p (VMap _) = True"
| "map_p _ = False"

fun sequential_p :: "val \<Rightarrow> bool" where
  "sequential_p (VVec _) = True"
| "sequential_p _ = False"

definition any_p :: "val \<Rightarrow> bool" where
  "any_p v = True"

text \<open>\<^verbatim>\<open>(second coll)\<close> on a vector; \<^verbatim>\<open>known-actions\<close> applies it to sequential keys only.\<close>

fun clj_second :: "val \<Rightarrow> val" where
  "clj_second (VVec (_ # y # _)) = y"
| "clj_second _ = VNil"

section \<open>The spec combinators used by the argument-map specs\<close>

text \<open>\<^verbatim>\<open>(s/keys :req-un [...])\<close>: the value is a map, each required key is present, and the
  value under it conforms to the key's spec.\<close>

definition s_keys_req_un :: "(string \<times> (val \<Rightarrow> bool)) list \<Rightarrow> val \<Rightarrow> bool" where
  "s_keys_req_un reqs v =
     (map_p v \<and> list_all (\<lambda>(k, spec). contains_p v (VKw k) \<and> spec (clj_get v (VKw k))) reqs)"

text \<open>\<^verbatim>\<open>(s/merge a b)\<close>: the value conforms to both.\<close>

definition s_merge :: "(val \<Rightarrow> bool) \<Rightarrow> (val \<Rightarrow> bool) \<Rightarrow> val \<Rightarrow> bool" where
  "s_merge a b v = (a v \<and> b v)"

text \<open>\<^verbatim>\<open>(s/map-of kpred vpred)\<close>: a map all of whose entries conform; it sets no minimum
  count.\<close>

fun s_map_of :: "(val \<Rightarrow> bool) \<Rightarrow> (val \<Rightarrow> bool) \<Rightarrow> val \<Rightarrow> bool" where
  "s_map_of kpred vpred (VMap kvs) = list_all (\<lambda>(k, v). kpred k \<and> vpred v) kvs"
| "s_map_of kpred vpred _ = False"

text \<open>\<^verbatim>\<open>(s/coll-of pred)\<close>: the value satisfies \<^verbatim>\<open>coll?\<close> and every element conforms. A map
  is a collection too; its elements are its entries, each a two-element vector.\<close>

fun s_coll_of :: "(val \<Rightarrow> bool) \<Rightarrow> val \<Rightarrow> bool" where
  "s_coll_of pred (VVec xs) = list_all pred xs"
| "s_coll_of pred (VMap kvs) = list_all (\<lambda>(k, v). pred (VVec [k, v])) kvs"
| "s_coll_of pred _ = False"

section \<open>Action definitions: the registered specs\<close>

text \<open>\<^verbatim>\<open>:actions.args/id\<close> is \<^verbatim>\<open>(s/and integer? pos?)\<close>.\<close>

definition actions_args_id :: "val \<Rightarrow> bool" where
  "actions_args_id v = (integer_p v \<and> pos_p v)"

definition actions_args_crud_common_database :: "val \<Rightarrow> bool" where
  "actions_args_crud_common_database = actions_args_id"

definition actions_args_crud_common_query_source_table :: "val \<Rightarrow> bool" where
  "actions_args_crud_common_query_source_table = actions_args_id"

definition actions_args_crud_common_query :: "val \<Rightarrow> bool" where
  "actions_args_crud_common_query =
     s_keys_req_un [(''source-table'', actions_args_crud_common_query_source_table)]"

definition actions_args_crud_common :: "val \<Rightarrow> bool" where
  "actions_args_crud_common =
     s_keys_req_un [(''database'', actions_args_crud_common_database),
                    (''query'', actions_args_crud_common_query)]"

subsection \<open>\<^verbatim>\<open>:row/create\<close>\<close>

definition actions_args_crud_row_create_create_row :: "val \<Rightarrow> bool" where
  "actions_args_crud_row_create_create_row = s_map_of keyword_p any_p"

definition actions_args_crud_row_create :: "val \<Rightarrow> bool" where
  "actions_args_crud_row_create =
     s_merge actions_args_crud_common
       (s_keys_req_un [(''create-row'', actions_args_crud_row_create_create_row)])"

subsection \<open>\<^verbatim>\<open>:row/update\<close>\<close>

definition actions_args_crud_row_update_query_filter :: "val \<Rightarrow> bool" where
  "actions_args_crud_row_update_query_filter = vector_p"

definition actions_args_crud_row_update_query :: "val \<Rightarrow> bool" where
  "actions_args_crud_row_update_query =
     s_merge actions_args_crud_common_query
       (s_keys_req_un [(''filter'', actions_args_crud_row_update_query_filter)])"

definition actions_args_crud_row_update_update_row :: "val \<Rightarrow> bool" where
  "actions_args_crud_row_update_update_row = s_map_of keyword_p any_p"

definition actions_args_crud_row_update :: "val \<Rightarrow> bool" where
  "actions_args_crud_row_update =
     s_merge actions_args_crud_common
       (s_keys_req_un [(''update-row'', actions_args_crud_row_update_update_row),
                       (''query'', actions_args_crud_row_update_query)])"

subsection \<open>\<^verbatim>\<open>:row/delete\<close>\<close>

definition actions_args_crud_row_delete_query_filter :: "val \<Rightarrow> bool" where
  "actions_args_crud_row_delete_query_filter = vector_p"

definition actions_args_crud_row_delete_query :: "val \<Rightarrow> bool" where
  "actions_args_crud_row_delete_query =
     s_merge actions_args_crud_common_query
       (s_keys_req_un [(''filter'', actions_args_crud_row_delete_query_filter)])"

definition actions_args_crud_row_delete :: "val \<Rightarrow> bool" where
  "actions_args_crud_row_delete =
     s_merge actions_args_crud_common
       (s_keys_req_un [(''query'', actions_args_crud_row_delete_query)])"

subsection \<open>\<^verbatim>\<open>:bulk/delete\<close>\<close>

definition actions_args_crud_bulk_delete :: "val \<Rightarrow> bool" where
  "actions_args_crud_bulk_delete = s_coll_of actions_args_crud_row_delete"

subsection \<open>Specs as values\<close>

text \<open>What \<^verbatim>\<open>action-arg-map-spec\<close> returns: the predicate \<^verbatim>\<open>any?\<close> or the name of one of the
  registered specs. \<open>s_conform\<close> is \<^verbatim>\<open>s/conform\<close>, with \<open>None\<close> for
  \<^verbatim>\<open>:clojure.spec.alpha/invalid\<close>; none of these specs changes the value it accepts.\<close>

datatype spec =
    Any_p
  | Crud_row_create
  | Crud_row_update
  | Crud_row_delete
  | Crud_bulk_delete

fun s_valid :: "spec \<Rightarrow> val \<Rightarrow> bool" where
  "s_valid Any_p v = any_p v"
| "s_valid Crud_row_create v = actions_args_crud_row_create v"
| "s_valid Crud_row_update v = actions_args_crud_row_update v"
| "s_valid Crud_row_delete v = actions_args_crud_row_delete v"
| "s_valid Crud_bulk_delete v = actions_args_crud_bulk_delete v"

definition s_conform :: "spec \<Rightarrow> val \<Rightarrow> val option" where
  "s_conform sp v = (if s_valid sp v then Some v else None)"

definition s_invalid :: "val option \<Rightarrow> bool" where
  "s_invalid r = (r = None)"

section \<open>Failures, the environment and the mutable state\<close>

text \<open>The messages of the exceptions this namespace builds, each with the values that are
  formatted into it.\<close>

datatype message =
    Actions_are_not_enabled
  | Unknown_Action val "val set"
  | Action_is_not_supported_for_Databases val val
  | Database_does_not_support_actions val val val
  | Actions_are_not_enabled_for_Database val
  | Invalid_Action_arg_map spec val
  | Wrong_number_of_args
  | Message string

text \<open>An exception as a value. \<open>ExInfo m d\<close> is \<^verbatim>\<open>(ex-info m d)\<close>; calling a function with a
  number of arguments it does not declare raises \<open>ArityException\<close>.\<close>

datatype failure =
    ArityException
  | ClassCastException
  | IllegalArgumentException
  | ExInfo message val

fun ex_message :: "failure \<Rightarrow> message" where
  "ex_message (ExInfo m d) = m"
| "ex_message ArityException = Wrong_number_of_args"
| "ex_message ClassCastException = Message ''ClassCastException''"
| "ex_message IllegalArgumentException = Message ''IllegalArgumentException''"

fun ex_data :: "failure \<Rightarrow> val" where
  "ex_data (ExInfo m d) = d"
| "ex_data _ = VNil"

definition status_code :: "failure \<Rightarrow> val" where
  "status_code e = clj_get (ex_data e) (VKw ''status-code'')"

text \<open>\<^verbatim>\<open>(assoc m k v)\<close> on a map or nil; a vector wants an integer key and other values are not
  associative.\<close>

fun clj_assoc :: "val \<Rightarrow> val \<Rightarrow> val \<Rightarrow> failure + val" where
  "clj_assoc (VMap kvs) k v = Inr (VMap ((k, v) # filter (\<lambda>(k', _). k' \<noteq> k) kvs))"
| "clj_assoc VNil k v = Inr (VMap [(k, v)])"
| "clj_assoc (VVec xs) (VInt i) v =
     (if 0 \<le> i \<and> i < int (length xs) then Inr (VVec (xs[nat i := v]))
      else if i = int (length xs) then Inr (VVec (xs @ [v]))
      else Inl IllegalArgumentException)"
| "clj_assoc (VVec xs) k v = Inl IllegalArgumentException"
| "clj_assoc _ k v = Inl ClassCastException"

text \<open>The calls made to the collaborators outside this namespace, oldest first.\<close>

datatype event =
    Database_lookup val
  | Database_supports val val val
  | Check_superuser
  | Method_invoked val "val list"
  | Effect val

text \<open>The state a call can change: the dynamic var \<^verbatim>\<open>setting/*database-local-values*\<close>
  (nil at the root) and the journal of collaborator calls. A registered method runs on
  this state and may change all of it.\<close>

record world =
  database_local_values :: val
  journal :: "event list"

type_synonym handler = "val list \<Rightarrow> world \<Rightarrow> (failure + val) \<times> world"

text \<open>
  What the namespace requires from elsewhere, taken as parameters:
  the value of the global setting \<^verbatim>\<open>experimental-enable-actions\<close>; the model
  \<^verbatim>\<open>Database\<close> called as a function (nil when no row has the id);
  \<^verbatim>\<open>driver/database-supports?\<close>; \<^verbatim>\<open>api/*current-user*\<close> and \<^verbatim>\<open>api/check-superuser\<close>
  (\<open>None\<close> when it passes); \<^verbatim>\<open>driver/dispatch-on-initialized-driver\<close> and the parents of
  a driver in \<^verbatim>\<open>driver/hierarchy\<close>, nearest first; the methods of \<^verbatim>\<open>perform-action!*\<close>
  that drivers register under a vector \<^verbatim>\<open>[driver action]\<close>; \<^verbatim>\<open>mbql.normalize/normalize\<close>;
  \<^verbatim>\<open>(schema/validate mbql.s/Query q)\<close> (\<open>Some e\<close> when it throws \<open>e\<close>); and
  \<^verbatim>\<open>s/explain-data\<close>.
\<close>

record env =
  experimental_enable_actions :: bool
  Database :: "val \<Rightarrow> val"
  database_supports_p :: "val \<Rightarrow> val \<Rightarrow> val \<Rightarrow> failure + bool"
  current_user :: val
  check_superuser :: "failure option"
  dispatch_on_initialized_driver :: "val \<Rightarrow> failure + val"
  driver_parents :: "val \<Rightarrow> val list"
  registered_methods :: "(val \<times> handler) list"
  mbql_normalize :: "val \<Rightarrow> failure + val"
  schema_validate_Query :: "val \<Rightarrow> failure option"
  s_explain_data :: "spec \<Rightarrow> val \<Rightarrow> val"

definition log_event :: "event \<Rightarrow> world \<Rightarrow> world" where
  "log_event ev w = w\<lparr>journal := journal w @ [ev]\<rparr>"

text \<open>Modelled from the spec: the getter that \<^verbatim>\<open>setting/defsetting\<close> generates for
  \<^verbatim>\<open>database-enable-actions\<close> is not among the sources. The setting is declared
  \<^verbatim>\<open>:database-local :only\<close> with \<^verbatim>\<open>:default false\<close>, and the spec has the gate "read the
  resource-local enablement flag" from the resource-scoped settings in effect: the flag is
  the boolean under \<^verbatim>\<open>:database-enable-actions\<close> in the bound database-local values, and
  false when there is none.\<close>

definition database_enable_actions :: "world \<Rightarrow> bool" where
  "database_enable_actions w =
     (clj_get (database_local_values w) (VKw ''database-enable-actions'') = VBool True)"

text \<open>\<^verbatim>\<open>(binding [setting/*database-local-values* v] body)\<close>: the var holds \<open>v\<close> while the body
  runs and gets its previous value back when the body leaves, by return or by exception.\<close>

definition binding_database_local_values ::
  "val \<Rightarrow> (world \<Rightarrow> (failure + val) \<times> world) \<Rightarrow> world \<Rightarrow> (failure + val) \<times> world" where
  "binding_database_local_values v body w =
     (case body (w\<lparr>database_local_values := v\<rparr>) of
        (r, w') \<Rightarrow> (r, w'\<lparr>database_local_values := database_local_values w\<rparr>))"

definition status_400 :: val where
  "status_400 = VMap [(VKw ''status-code'', VInt 400)]"

definition status_404 :: val where
  "status_404 = VMap [(VKw ''status-code'', VInt 404)]"

section \<open>\<^verbatim>\<open>normalize-action-arg-map\<close>\<close>

text \<open>The dispatch function \<^verbatim>\<open>(fn [action _arg-map] (keyword action))\<close> declares two
  parameters. A function applied to an argument list of another length raises.\<close>

definition normalize_action_arg_map_dispatch :: "val list \<Rightarrow> failure + val" where
  "normalize_action_arg_map_dispatch args =
     (case args of
        [action, arg_map] \<Rightarrow> Inr (keyword action)
      | _ \<Rightarrow> Inl ArityException)"

text \<open>\<^verbatim>\<open>(defmethod normalize-action-arg-map :default [_action arg-map] arg-map)\<close>\<close>

definition normalize_action_arg_map_default :: "val list \<Rightarrow> failure + val" where
  "normalize_action_arg_map_default args =
     (case args of
        [action, arg_map] \<Rightarrow> Inr arg_map
      | _ \<Rightarrow> Inl ArityException)"

text \<open>\<^verbatim>\<open>normalize-as-mbql-query\<close>: normalize, stamp \<^verbatim>\<open>:type :query\<close>, validate against the MBQL
  schema and rethrow what the validation throws as an \<^verbatim>\<open>ex-info\<close> with status code 400.\<close>

definition normalize_as_mbql_query :: "env \<Rightarrow> val \<Rightarrow> failure + val" where
  "normalize_as_mbql_query env query0 =
     (case mbql_normalize env query0 of
        Inl e \<Rightarrow> Inl e
      | Inr normalized \<Rightarrow>
          (case clj_assoc normalized (VKw ''type'') (VKw ''query'') of
             Inl e \<Rightarrow> Inl e
           | Inr query \<Rightarrow>
               (case schema_validate_Query env query of
                  Some e \<Rightarrow>
                    Inl (ExInfo (ex_message e)
                          (VMap [(VKw ''exception-data'', ex_data e),
                                 (VKw ''status-code'', VInt 400)]))
                | None \<Rightarrow> Inr query)))"

text \<open>The methods for \<^verbatim>\<open>:row/create\<close>, \<^verbatim>\<open>:row/update\<close> and \<^verbatim>\<open>:row/delete\<close> are each declared
  with the one parameter \<^verbatim>\<open>[query]\<close>.\<close>

definition normalize_action_arg_map_row_create :: "env \<Rightarrow> val list \<Rightarrow> failure + val" where
  "normalize_action_arg_map_row_create env args =
     (case args of
        [query] \<Rightarrow> normalize_as_mbql_query env query
      | _ \<Rightarrow> Inl ArityException)"

definition normalize_action_arg_map_row_update :: "env \<Rightarrow> val list \<Rightarrow> failure + val" where
  "normalize_action_arg_map_row_update env args =
     (case args of
        [query] \<Rightarrow> normalize_as_mbql_query env query
      | _ \<Rightarrow> Inl ArityException)"

definition normalize_action_arg_map_row_delete :: "env \<Rightarrow> val list \<Rightarrow> failure + val" where
  "normalize_action_arg_map_row_delete env args =
     (case args of
        [query] \<Rightarrow> normalize_as_mbql_query env query
      | _ \<Rightarrow> Inl ArityException)"

text \<open>The multimethod: the dispatch function is applied to the arguments of the call, and
  the method found for its value is applied to the same arguments.\<close>

definition normalize_action_arg_map :: "env \<Rightarrow> val list \<Rightarrow> failure + val" where
  "normalize_action_arg_map env args =
     (case normalize_action_arg_map_dispatch args of
        Inl e \<Rightarrow> Inl e
      | Inr dv \<Rightarrow>
          if dv = VKw ''row/create'' then normalize_action_arg_map_row_create env args
          else if dv = VKw ''row/update'' then normalize_action_arg_map_row_update env args
          else if dv = VKw ''row/delete'' then normalize_action_arg_map_row_delete env args
          else normalize_action_arg_map_default args)"

section \<open>\<^verbatim>\<open>action-arg-map-spec\<close>\<close>

text \<open>Dispatch is \<^verbatim>\<open>keyword\<close> on the one argument; every method declares \<^verbatim>\<open>[_action]\<close>.\<close>

definition action_arg_map_spec :: "val list \<Rightarrow> failure + spec" where
  "action_arg_map_spec args =
     (case args of
        [action] \<Rightarrow>
          (let dv = keyword action in
           if dv = VKw ''row/create'' then Inr Crud_row_create
           else if dv = VKw ''row/update'' then Inr Crud_row_update
           else if dv = VKw ''row/delete'' then Inr Crud_row_delete
           else if dv = VKw ''bulk/delete'' then Inr Crud_bulk_delete
           else Inr Any_p)
      | _ \<Rightarrow> Inl ArityException)"

section \<open>\<^verbatim>\<open>perform-action!*\<close>\<close>

text \<open>\<^verbatim>\<open>known-actions\<close>: the second element of every sequential key of the method table. The
  table holds the \<^verbatim>\<open>:default\<close> method of this namespace and what the drivers registered.\<close>

definition method_keys :: "env \<Rightarrow> val list" where
  "method_keys env = VKw ''default'' # map fst (registered_methods env)"

definition known_actions :: "env \<Rightarrow> val set" where
  "known_actions env = set (map clj_second (filter sequential_p (method_keys env)))"

text \<open>The dispatch function declares \<^verbatim>\<open>[driver action _database _arg-map]\<close>.\<close>

definition perform_action_star_dispatch :: "env \<Rightarrow> val list \<Rightarrow> failure + val" where
  "perform_action_star_dispatch env args =
     (case args of
        [driver, action, database, arg_map] \<Rightarrow>
          (case dispatch_on_initialized_driver env driver of
             Inl e \<Rightarrow> Inl e
           | Inr d \<Rightarrow> Inr (VVec [d, keyword action]))
      | _ \<Rightarrow> Inl ArityException)"

text \<open>The \<^verbatim>\<open>:default\<close> method declares the three parameters \<^verbatim>\<open>[driver action _arg-map]\<close>.\<close>

definition perform_action_star_default :: "env \<Rightarrow> handler" where
  "perform_action_star_default env args w =
     (case args of
        [driver, action0, arg_map] \<Rightarrow>
          (let action = keyword action0;
               known = known_actions env
           in if action \<notin> known
              then (Inl (ExInfo (Unknown_Action action known) status_404), w)
              else (Inl (ExInfo (Action_is_not_supported_for_Databases action driver)
                          status_400), w))
      | _ \<Rightarrow> (Inl ArityException, w))"

text \<open>Modelled from the spec: \<^verbatim>\<open>driver/hierarchy\<close> is not among the sources. The spec has
  the lookup go "exact-match first, then a kind-hierarchy walk (most-specific to
  least-specific ancestor)", so the method is the first one registered for the driver or
  for one of its parents, nearest first, under the same action.\<close>

fun get_method :: "(val \<times> handler) list \<Rightarrow> val list \<Rightarrow> val \<Rightarrow> handler option" where
  "get_method ms [] action = None"
| "get_method ms (d # ds) action =
     (case map_of ms (VVec [d, action]) of
        Some h \<Rightarrow> Some h
      | None \<Rightarrow> get_method ms ds action)"

definition perform_action_star :: "env \<Rightarrow> handler" where
  "perform_action_star env args w =
     (case perform_action_star_dispatch env args of
        Inl e \<Rightarrow> (Inl e, w)
      | Inr dv \<Rightarrow>
          (case dv of
             VVec [d, action] \<Rightarrow>
               (case get_method (registered_methods env) (d # driver_parents env d) action of
                  Some h \<Rightarrow> h args (log_event (Method_invoked dv args) w)
                | None \<Rightarrow> perform_action_star_default env args w)
           | _ \<Rightarrow> perform_action_star_default env args w))"

section \<open>\<^verbatim>\<open>perform-action!\<close>\<close>

text \<open>The body of the \<^verbatim>\<open>let\<close> in \<^verbatim>\<open>perform-action!\<close>, for an action keyword, its spec and the
  normalized argument map: validation, the global flag, the lookup of the database, the
  capability check, and under the database-local settings the per-database flag, the
  superuser check and the hand-off to \<^verbatim>\<open>perform-action!*\<close>.\<close>

definition perform_action_body :: "env \<Rightarrow> val \<Rightarrow> spec \<Rightarrow> val \<Rightarrow> world \<Rightarrow> (failure + val) \<times> world" where
  "perform_action_body env action sp arg_map w =
     (if s_invalid (s_conform sp arg_map)
      then (Inl (ExInfo (Invalid_Action_arg_map sp arg_map) (s_explain_data env sp arg_map)), w)
      else if \<not> experimental_enable_actions env
      then (Inl (ExInfo Actions_are_not_enabled status_400), w)
      else
        (let database_id = clj_get arg_map (VKw ''database'');
             db = Database env database_id;
             w1 = log_event (Database_lookup database_id) w;
             db_settings = clj_get db (VKw ''settings'');
             driver = clj_get db (VKw ''engine'');
             w2 = log_event (Database_supports driver (VKw ''actions'') db) w1
         in case database_supports_p env driver (VKw ''actions'') db of
              Inl e \<Rightarrow> (Inl e, w2)
            | Inr False \<Rightarrow>
                (Inl (ExInfo
                       (Database_does_not_support_actions driver
                          (clj_get db (VKw ''id'')) (clj_get db (VKw ''name'')))
                       (VMap [(VKw ''status-code'', VInt 400),
                              (VKw ''database-id'', clj_get db (VKw ''id''))])), w2)
            | Inr True \<Rightarrow>
                binding_database_local_values db_settings
                  (\<lambda>w3.
                     if \<not> database_enable_actions w3
                     then (Inl (ExInfo (Actions_are_not_enabled_for_Database database_id)
                                 status_400), w3)
                     else if truthy (current_user env)
                     then (case check_superuser env of
                             Some e \<Rightarrow> (Inl e, log_event Check_superuser w3)
                           | None \<Rightarrow>
                               perform_action_star env [driver, action, db, arg_map]
                                 (log_event Check_superuser w3))
                     else perform_action_star env [driver, action, db, arg_map] w3)
                  w2))"

text \<open>\<^verbatim>\<open>perform-action!\<close>: the bindings of the \<^verbatim>\<open>let\<close> in their order, then its body.
  \<^verbatim>\<open>normalize-action-arg-map\<close> is called with the argument map alone.\<close>

definition perform_action :: "env \<Rightarrow> val \<Rightarrow> val \<Rightarrow> world \<Rightarrow> (failure + val) \<times> world" where
  "perform_action env action0 arg_map0 w =
     (let action = keyword action0 in
      case action_arg_map_spec [action] of
        Inl e \<Rightarrow> (Inl e, w)
      | Inr sp \<Rightarrow>
          (case normalize_action_arg_map env [arg_map0] of
             Inl e \<Rightarrow> (Inl e, w)
           | Inr arg_map \<Rightarrow> perform_action_body env action sp arg_map w))"

section \<open>The condition rules of the SmartScalar visualization\<close>

text \<open>
  \<^verbatim>\<open>Smart.render\<close> computes \<^verbatim>\<open>displayColor\<close> from the rules of the setting
  \<^verbatim>\<open>scalar.color\<close> and the displayed scalar. JavaScript values are undefined, null,
  booleans, numbers (whole numbers here) and strings. The loose equality \<^verbatim>\<open>==\<close> and the
  relational operators coerce their operands; they are parameters of the evaluator, so
  what is proved holds for every reading of them. Reading an identifier that is declared
  nowhere throws a \<^verbatim>\<open>ReferenceError\<close>.
\<close>

datatype js =
    JUndefined
  | JNull
  | JBool bool
  | JNum int
  | JStr string

datatype js_failure = ReferenceError string

fun js_truthy :: "js \<Rightarrow> bool" where
  "js_truthy JUndefined = False"
| "js_truthy JNull = False"
| "js_truthy (JBool b) = b"
| "js_truthy (JNum n) = (n \<noteq> 0)"
| "js_truthy (JStr s) = (s \<noteq> [])"

record js_ops =
  loose_eq :: "js \<Rightarrow> js \<Rightarrow> bool"
  gt :: "js \<Rightarrow> js \<Rightarrow> bool"
  lt :: "js \<Rightarrow> js \<Rightarrow> bool"
  ge :: "js \<Rightarrow> js \<Rightarrow> bool"
  le :: "js \<Rightarrow> js \<Rightarrow> bool"

text \<open>A rule of the setting: \<^verbatim>\<open>condition\<close>, \<^verbatim>\<open>value\<close> (here \<open>value1\<close>), \<^verbatim>\<open>color\<close>,
  \<^verbatim>\<open>condition2\<close> and \<^verbatim>\<open>value2\<close>.\<close>

record rule =
  condition :: js
  value1 :: js
  color :: js
  condition2 :: js
  value2 :: js

text \<open>The first \<^verbatim>\<open>switch\<close>; \<open>v\<close> is the displayed value. The default case leaves \<^verbatim>\<open>temp\<close>
  undefined.\<close>

definition first_switch :: "js_ops \<Rightarrow> js \<Rightarrow> rule \<Rightarrow> js" where
  "first_switch ops v a =
     (if condition a = JStr ''Is Equal to'' then JBool (loose_eq ops (value1 a) v)
      else if condition a = JStr ''Is Less than'' then JBool (gt ops (value1 a) v)
      else if condition a = JStr ''Is Greater than'' then JBool (lt ops (value1 a) v)
      else if condition a = JStr ''Is Less than Equal to'' then JBool (ge ops (value1 a) v)
      else if condition a = JStr ''Is Greater than Equal to'' then JBool (le ops (value1 a) v)
      else JUndefined)"

text \<open>The second \<^verbatim>\<open>switch\<close>. Its case \<^verbatim>\<open>"Is Less than Equal to"\<close> reads \<^verbatim>\<open>values\<close>, which no
  scope of the module declares.\<close>

definition second_switch :: "js_ops \<Rightarrow> js \<Rightarrow> rule \<Rightarrow> js_failure + js" where
  "second_switch ops v a =
     (if condition2 a = JStr ''Is Less than'' then Inr (JBool (gt ops (value2 a) v))
      else if condition2 a = JStr ''Is Greater than'' then Inr (JBool (lt ops (value2 a) v))
      else if condition2 a = JStr ''Is Less than Equal to'' then Inl (ReferenceError ''values'')
      else if condition2 a = JStr ''Is Greater than Equal to''
      then Inr (JBool (le ops (value2 a) v))
      else Inr JUndefined)"

text \<open>The body of the \<^verbatim>\<open>forEach\<close> callback: the new \<^verbatim>\<open>displayColor\<close>, or the exception.\<close>

definition eval_rule :: "js_ops \<Rightarrow> js \<Rightarrow> rule \<Rightarrow> js \<Rightarrow> js_failure + js" where
  "eval_rule ops v a displayColor =
     (let temp = first_switch ops v a in
      case second_switch ops v a of
        Inl e \<Rightarrow> Inl e
      | Inr t2 \<Rightarrow>
          (let temp2 = (if \<not> js_truthy (value2 a) then JBool True else t2)
           in Inr (if js_truthy temp \<and> js_truthy temp2 then color a else displayColor)))"

fun for_each_rule :: "js_ops \<Rightarrow> js \<Rightarrow> rule list \<Rightarrow> js \<Rightarrow> js_failure + js" where
  "for_each_rule ops v [] displayColor = Inr displayColor"
| "for_each_rule ops v (a # rest) displayColor =
     (case eval_rule ops v a displayColor of
        Inl e \<Rightarrow> Inl e
      | Inr c \<Rightarrow> for_each_rule ops v rest c)"

definition rule_filter :: "rule \<Rightarrow> bool" where
  "rule_filter g = (js_truthy (condition g) \<and> js_truthy (value1 g) \<and> js_truthy (color g))"

text \<open>\<^verbatim>\<open>displayColor\<close> as \<^verbatim>\<open>render\<close> computes it; \<open>None\<close> stands for a setting without
  rules.\<close>

definition display_color :: "js_ops \<Rightarrow> js \<Rightarrow> rule list option \<Rightarrow> js_failure + js" where
  "display_color ops v rules =
     (case rules of
        None \<Rightarrow> Inr (JStr [])
      | Some rs \<Rightarrow> for_each_rule ops v (filter rule_filter rs) (JStr []))"

section \<open>Example inputs\<close>

definition example_db :: val where
  "example_db =
     VMap [(VKw ''id'', VInt 2), (VKw ''name'', VStr ''sample''), (VKw ''engine'', VKw ''h2''),
           (VKw ''settings'', VMap [(VKw ''database-enable-actions'', VBool True)])]"

text \<open>A method that reports one row and, on its way, resets the dynamic var.\<close>

definition example_handler :: handler where
  "example_handler args w =
     (Inr (VMap [(VKw ''created-row'', VInt 1)]),
      (log_event (Effect (VKw ''row-written'')) w)\<lparr>database_local_values := VNil\<rparr>)"

definition example_env :: env where
  "example_env =
     \<lparr>experimental_enable_actions = True,
      Database = (\<lambda>database_id. if database_id = VInt 2 then example_db else VNil),
      database_supports_p = (\<lambda>driver feature db. Inr (driver = VKw ''h2'')),
      current_user = VNil,
      check_superuser = None,
      dispatch_on_initialized_driver = Inr,
      driver_parents = (\<lambda>driver. []),
      registered_methods = [(VVec [VKw ''h2'', VKw ''row/create''], example_handler)],
      mbql_normalize = Inr,
      schema_validate_Query = (\<lambda>q. None),
      s_explain_data = (\<lambda>sp v. VNil)\<rparr>"

definition example_world :: world where
  "example_world = \<lparr>database_local_values = VNil, journal = []\<rparr>"

definition example_create :: val where
  "example_create =
     VMap [(VKw ''database'', VInt 2), (VKw ''type'', VKw ''query''),
           (VKw ''query'', VMap [(VKw ''source-table'', VInt 29)]),
           (VKw ''create-row'', VMap [(VKw ''name'', VStr ''Bob'')])]"

definition example_ops :: js_ops where
  "example_ops =
     \<lparr>loose_eq = (\<lambda>a b. a = b),
      gt = (\<lambda>a b. case (a, b) of (JNum x, JNum y) \<Rightarrow> x > y | _ \<Rightarrow> False),
      lt = (\<lambda>a b. case (a, b) of (JNum x, JNum y) \<Rightarrow> x < y | _ \<Rightarrow> False),
      ge = (\<lambda>a b. case (a, b) of (JNum x, JNum y) \<Rightarrow> x \<ge> y | _ \<Rightarrow> False),
      le = (\<lambda>a b. case (a, b) of (JNum x, JNum y) \<Rightarrow> x \<le> y | _ \<Rightarrow> False)\<rparr>"

definition example_rule :: rule where
  "example_rule =
     \<lparr>condition = JStr ''Is Greater than'', value1 = JNum 10, color = JStr ''#ff0000'',
      condition2 = JStr ''Is Less than Equal to'', value2 = JNum 100\<rparr>"

definition example_env_off :: env where
  "example_env_off = example_env\<lparr>experimental_enable_actions := False\<rparr>"

text \<open>A world in which the dynamic var already holds database-local values of its own.\<close>

definition example_world_ambient :: world where
  "example_world_ambient =
     \<lparr>database_local_values = VMap [(VKw ''database-enable-actions'', VBool False)],
      journal = []\<rparr>"

definition example_query_no_filter :: val where
  "example_query_no_filter = VMap [(VKw ''source-table'', VInt 29)]"

definition example_query_empty_filter :: val where
  "example_query_empty_filter =
     VMap [(VKw ''source-table'', VInt 29), (VKw ''filter'', VVec [])]"

definition example_query_filter :: val where
  "example_query_filter =
     VMap [(VKw ''source-table'', VInt 29),
           (VKw ''filter'', VVec [VKw ''='', VVec [VKw ''field'', VInt 51, VNil], VInt 1])]"

definition example_delete :: "val \<Rightarrow> val" where
  "example_delete q =
     VMap [(VKw ''database'', VInt 2), (VKw ''type'', VKw ''query''), (VKw ''query'', q)]"

definition example_update :: "val \<Rightarrow> val" where
  "example_update row =
     VMap [(VKw ''database'', VInt 2), (VKw ''type'', VKw ''query''),
           (VKw ''query'', example_query_filter), (VKw ''update-row'', row)]"

definition example_create_with :: "val \<Rightarrow> val" where
  "example_create_with row =
     VMap [(VKw ''database'', VInt 2), (VKw ''type'', VKw ''query''),
           (VKw ''query'', example_query_no_filter), (VKw ''create-row'', row)]"

text \<open>The batch of the spec's scenario: the second element has no filter.\<close>

definition example_batch :: val where
  "example_batch =
     VVec [example_delete example_query_filter, example_delete example_query_no_filter]"

text \<open>A valid \<^verbatim>\<open>row/create\<close> map for a database id that no row has.\<close>

definition example_create_99 :: val where
  "example_create_99 =
     VMap [(VKw ''database'', VInt 99), (VKw ''type'', VKw ''query''),
           (VKw ''query'', VMap [(VKw ''source-table'', VInt 29)]),
           (VKw ''create-row'', VMap [(VKw ''name'', VStr ''Bob'')])]"

text \<open>An environment whose MBQL schema rejects a query without an inner query map, and a
  request body that has none.\<close>

definition example_schema_error :: failure where
  "example_schema_error =
     ExInfo (Message ''Value does not match schema'')
       (VMap [(VKw ''type'', VKw ''schema.core/error''),
              (VKw ''error'', VMap [(VKw ''query'', VStr ''missing-required-key'')])])"

definition example_env_strict :: env where
  "example_env_strict =
     example_env\<lparr>schema_validate_Query :=
       (\<lambda>q. if map_p (clj_get q (VKw ''query'')) then None else Some example_schema_error)\<rparr>"

definition example_malformed :: val where
  "example_malformed =
     VMap [(VKw ''database'', VInt 2), (VKw ''create-row'', VMap [(VKw ''name'', VStr ''Bob'')])]"

section \<open>Every call of \<^verbatim>\<open>perform-action!\<close> stops at the normalization step\<close>

text \<open>
  C3. \<^verbatim>\<open>perform-action!\<close> calls \<^verbatim>\<open>normalize-action-arg-map\<close> with the argument map alone,
  while the dispatch function of that multimethod declares two parameters. So for every
  action and every argument map the call raises an arity exception at the normalization
  step; the state is as it was, so no validation failure, no enablement check and no
  method of \<^verbatim>\<open>perform-action!*\<close> came before it. The row methods declare one parameter and
  raise the same exception when the multimethod is called with the two arguments its
  dispatch function wants.
\<close>

theorem C3_normalization_arity:
  "normalize_action_arg_map env [arg_map] = Inl ArityException \<and>
   perform_action env action arg_map w = (Inl ArityException, w) \<and>
   normalize_action_arg_map_row_create env [action, arg_map] = Inl ArityException \<and>
   normalize_action_arg_map_row_update env [action, arg_map] = Inl ArityException \<and>
   normalize_action_arg_map_row_delete env [action, arg_map] = Inl ArityException"
  by (simp add: perform_action_def normalize_action_arg_map_def
      normalize_action_arg_map_dispatch_def action_arg_map_spec_def Let_def
      normalize_action_arg_map_row_create_def normalize_action_arg_map_row_update_def
      normalize_action_arg_map_row_delete_def)

section \<open>The second condition "Is Less than Equal to"\<close>

lemma for_each_rule_reference_error:
  "a \<in> set rs \<Longrightarrow> condition2 a = JStr ''Is Less than Equal to'' \<Longrightarrow>
   for_each_rule ops v rs c = Inl (ReferenceError ''values'')"
proof (induction rs arbitrary: c)
  case Nil
  then show ?case by simp
next
  case (Cons r rs)
  show ?case
  proof (cases "eval_rule ops v r c")
    case (Inl e)
    then have "e = ReferenceError ''values''"
      by (auto simp: eval_rule_def second_switch_def Let_def split: if_splits sum.splits)
    with Inl show ?thesis by simp
  next
    case (Inr c')
    then have "condition2 r \<noteq> JStr ''Is Less than Equal to''"
      by (auto simp: eval_rule_def second_switch_def Let_def split: if_splits sum.splits)
    with Cons.prems have "a \<in> set rs" by auto
    with Cons.IH Cons.prems(2) Inr show ?thesis by simp
  qed
qed

text \<open>
  C10. For a rule whose second condition is "Is Less than Equal to", the callback does not
  compare \<^verbatim>\<open>a.value2\<close> with the displayed value: the branch reads the undeclared
  \<^verbatim>\<open>values\<close> and throws, whatever the operators, the displayed value, the first
  condition and the colour so far are. When such a rule passes the filter, the whole
  computation of \<^verbatim>\<open>displayColor\<close> ends in that exception.
\<close>

theorem C10_second_condition_reads_values:
  assumes "condition2 a = JStr ''Is Less than Equal to''"
  shows "second_switch ops v a = Inl (ReferenceError ''values'') \<and>
         second_switch ops v a \<noteq> Inr (JBool (ge ops (value2 a) v)) \<and>
         eval_rule ops v a c = Inl (ReferenceError ''values'') \<and>
         (a \<in> set rs \<and> rule_filter a \<longrightarrow>
            display_color ops v (Some rs) = Inl (ReferenceError ''values''))"
  using assms
  by (auto simp: second_switch_def eval_rule_def display_color_def Let_def
      intro!: for_each_rule_reference_error)

theorem C10_second_condition_reads_values_witness:
  "condition2 example_rule = JStr ''Is Less than Equal to'' \<and>
   eval_rule example_ops (JNum 50) example_rule (JStr []) = Inl (ReferenceError ''values'') \<and>
   display_color example_ops (JNum 50) (Some [example_rule]) = Inl (ReferenceError ''values'')"
  using C10_second_condition_reads_values
    [of example_rule example_ops "JNum 50" "JStr []" "[example_rule]"]
  by (simp add: example_rule_def rule_filter_def)

section \<open>Validation of the argument maps\<close>

lemmas spec_defs =
  actions_args_crud_row_create_def actions_args_crud_row_update_def
  actions_args_crud_row_delete_def actions_args_crud_bulk_delete_def
  actions_args_crud_row_update_query_def actions_args_crud_row_delete_query_def
  actions_args_crud_row_update_query_filter_def actions_args_crud_row_delete_query_filter_def
  actions_args_crud_row_update_update_row_def actions_args_crud_row_create_create_row_def
  s_merge_def s_keys_req_un_def

lemmas base_defs =
  actions_args_crud_common_def actions_args_crud_common_query_def
  actions_args_crud_common_database_def actions_args_crud_common_query_source_table_def
  actions_args_id_def any_p_def

lemmas call_defs =
  perform_action_def normalize_action_arg_map_def normalize_action_arg_map_dispatch_def
  action_arg_map_spec_def

lemma common_map_p: "actions_args_crud_common m \<Longrightarrow> map_p m"
  by (simp add: base_defs s_keys_req_un_def)

lemma common_query_map_p: "actions_args_crud_common_query q \<Longrightarrow> map_p q"
  by (simp add: base_defs s_keys_req_un_def)

lemma common_query:
  "actions_args_crud_common m \<Longrightarrow> actions_args_crud_common_query (clj_get m (VKw ''query''))"
  by (simp add: actions_args_crud_common_def s_keys_req_un_def)

lemma row_delete_iff:
  "actions_args_crud_row_delete m =
     (actions_args_crud_common m \<and>
      contains_p (clj_get m (VKw ''query'')) (VKw ''filter'') \<and>
      vector_p (clj_get (clj_get m (VKw ''query'')) (VKw ''filter'')))"
  by (auto simp: spec_defs dest: common_map_p common_query common_query_map_p
      simp: actions_args_crud_common_def)

lemma row_update_query_iff:
  "actions_args_crud_row_update_query q =
     (actions_args_crud_common_query q \<and> contains_p q (VKw ''filter'') \<and>
      vector_p (clj_get q (VKw ''filter'')))"
  by (auto simp: spec_defs dest: common_query_map_p)

lemma row_update_iff:
  "actions_args_crud_row_update m =
     (actions_args_crud_common m \<and>
      contains_p m (VKw ''update-row'') \<and>
      s_map_of keyword_p any_p (clj_get m (VKw ''update-row'')) \<and>
      contains_p (clj_get m (VKw ''query'')) (VKw ''filter'') \<and>
      vector_p (clj_get (clj_get m (VKw ''query'')) (VKw ''filter'')))"
  by (auto simp: spec_defs dest: common_map_p common_query common_query_map_p
      simp: actions_args_crud_common_def)

lemma row_create_iff:
  "actions_args_crud_row_create m =
     (actions_args_crud_common m \<and>
      contains_p m (VKw ''create-row'') \<and>
      s_map_of keyword_p any_p (clj_get m (VKw ''create-row'')))"
  by (auto simp: spec_defs dest: common_map_p)

lemma s_map_of_keyword_any_iff:
  "s_map_of keyword_p any_p v = (\<exists>kvs. v = VMap kvs \<and> list_all (\<lambda>(k, x). keyword_p k) kvs)"
  by (cases v) (auto simp: any_p_def)

lemma bulk_delete_iff:
  "actions_args_crud_bulk_delete v =
     ((\<exists>xs. v = VVec xs \<and> list_all actions_args_crud_row_delete xs) \<or> v = VMap [])"
proof (cases v)
  case (VMap kvs)
  have "\<not> actions_args_crud_row_delete (VVec [k, x])" for k x
    by (simp add: spec_defs base_defs)
  then have "list_all (\<lambda>(k, v). actions_args_crud_row_delete (VVec [k, v])) kvs = (kvs = [])"
    by (cases kvs) auto
  with VMap show ?thesis by (simp add: actions_args_crud_bulk_delete_def)
qed (simp_all add: actions_args_crud_bulk_delete_def)

text \<open>The first step of the body: an argument map that does not conform is rejected with
  the "Invalid Action arg map" exception, and the state is left as it was.\<close>

lemma invalid_arg_map_rejected:
  "\<not> s_valid sp m \<Longrightarrow>
   perform_action_body env action sp m w =
     (Inl (ExInfo (Invalid_Action_arg_map sp m) (s_explain_data env sp m)), w)"
  by (simp add: perform_action_body_def s_invalid_def s_conform_def)

subsection \<open>The filter of \<^verbatim>\<open>row/update\<close> and \<^verbatim>\<open>row/delete\<close>\<close>

theorem C4_empty_filter_counterexample:
  "clj_get example_query_empty_filter (VKw ''filter'') = VVec [] \<and>
   s_valid Crud_row_delete (example_delete example_query_empty_filter) \<and>
   \<not> s_invalid (s_conform Crud_row_delete (example_delete example_query_empty_filter))"
  by (simp add: example_query_empty_filter_def example_delete_def s_invalid_def s_conform_def
      spec_defs base_defs)

text \<open>
  C4, as the code has it. With \<open>q\<close> the query of the argument map: a \<^verbatim>\<open>row/delete\<close> map is
  valid exactly when it meets the common contract and \<open>q\<close> has a \<^verbatim>\<open>:filter\<close> key whose
  value is a vector; a \<^verbatim>\<open>row/update\<close> map needs the same and its \<^verbatim>\<open>:update-row\<close>. The
  vector may be empty: the spec of the filter is \<^verbatim>\<open>vector?\<close>. A map whose query has no
  filter is invalid for both actions, and the validation step rejects it with the
  "Invalid Action arg map" exception, leaving the state as it was.
\<close>

theorem C4_filter_is_required_as_a_vector:
  fixes m :: val
  assumes q: "q = clj_get m (VKw ''query'')"
  shows "(s_valid Crud_row_delete m \<longleftrightarrow>
            actions_args_crud_common m \<and> contains_p q (VKw ''filter'') \<and>
            vector_p (clj_get q (VKw ''filter''))) \<and>
         (s_valid Crud_row_update m \<longleftrightarrow>
            actions_args_crud_common m \<and> contains_p m (VKw ''update-row'') \<and>
            s_map_of keyword_p any_p (clj_get m (VKw ''update-row'')) \<and>
            contains_p q (VKw ''filter'') \<and> vector_p (clj_get q (VKw ''filter''))) \<and>
         (\<not> contains_p q (VKw ''filter'') \<and> (sp = Crud_row_delete \<or> sp = Crud_row_update) \<longrightarrow>
            \<not> s_valid sp m \<and>
            perform_action_body env action sp m w =
              (Inl (ExInfo (Invalid_Action_arg_map sp m) (s_explain_data env sp m)), w))"
  using q by (auto simp: row_delete_iff row_update_iff invalid_arg_map_rejected)

theorem C4_filter_is_required_as_a_vector_witness:
  "\<not> contains_p example_query_no_filter (VKw ''filter'') \<and>
   \<not> s_valid Crud_row_delete (example_delete example_query_no_filter) \<and>
   s_valid Crud_row_delete (example_delete example_query_filter) \<and>
   perform_action_body example_env (VKw ''row/delete'') Crud_row_delete
     (example_delete example_query_no_filter) example_world =
     (Inl (ExInfo (Invalid_Action_arg_map Crud_row_delete
        (example_delete example_query_no_filter)) VNil), example_world)"
  using C4_filter_is_required_as_a_vector
      [of example_query_no_filter "example_delete example_query_no_filter"
        Crud_row_delete example_env "VKw ''row/delete''" example_world]
    C4_filter_is_required_as_a_vector
      [of example_query_filter "example_delete example_query_filter"
        Crud_row_delete example_env "VKw ''row/delete''" example_world]
  by (simp add: example_query_no_filter_def example_query_filter_def example_delete_def
      base_defs s_keys_req_un_def example_env_def)

subsection \<open>The payloads of \<^verbatim>\<open>row/create\<close> and \<^verbatim>\<open>row/update\<close>\<close>

theorem C5_empty_payload_counterexample:
  "clj_get (example_create_with (VMap [])) (VKw ''create-row'') = VMap [] \<and>
   s_valid Crud_row_create (example_create_with (VMap [])) \<and>
   clj_get (example_update (VMap [])) (VKw ''update-row'') = VMap [] \<and>
   s_valid Crud_row_update (example_update (VMap []))"
  by (simp add: example_create_with_def example_update_def example_query_no_filter_def
      example_query_filter_def spec_defs base_defs)

text \<open>
  C5, as the code has it. A \<^verbatim>\<open>row/create\<close> map is valid exactly when it meets the common
  contract and has a \<^verbatim>\<open>:create-row\<close> key whose value is a map with keyword keys; a
  \<^verbatim>\<open>row/update\<close> map is valid exactly when it meets the common contract, its query has a
  vector filter, and it has an \<^verbatim>\<open>:update-row\<close> key whose value is a map with keyword keys.
  The payload map may be empty: \<^verbatim>\<open>s/map-of\<close> sets no minimum count. A map without the
  payload key is invalid and is rejected by the validation step.
\<close>

theorem C5_payload_is_required_as_a_map:
  "(s_valid Crud_row_create m \<longleftrightarrow>
      actions_args_crud_common m \<and> contains_p m (VKw ''create-row'') \<and>
      (\<exists>kvs. clj_get m (VKw ''create-row'') = VMap kvs \<and> list_all (\<lambda>(k, x). keyword_p k) kvs)) \<and>
   (s_valid Crud_row_update m \<longleftrightarrow>
      actions_args_crud_row_update_query (clj_get m (VKw ''query'')) \<and>
      actions_args_crud_common m \<and> contains_p m (VKw ''update-row'') \<and>
      (\<exists>kvs. clj_get m (VKw ''update-row'') = VMap kvs \<and> list_all (\<lambda>(k, x). keyword_p k) kvs)) \<and>
   (\<not> contains_p m (VKw ''create-row'') \<longrightarrow>
      \<not> s_valid Crud_row_create m \<and>
      perform_action_body env action Crud_row_create m w =
        (Inl (ExInfo (Invalid_Action_arg_map Crud_row_create m)
               (s_explain_data env Crud_row_create m)), w)) \<and>
   (\<not> contains_p m (VKw ''update-row'') \<longrightarrow>
      \<not> s_valid Crud_row_update m \<and>
      perform_action_body env action Crud_row_update m w =
        (Inl (ExInfo (Invalid_Action_arg_map Crud_row_update m)
               (s_explain_data env Crud_row_update m)), w))"
  by (auto simp: row_create_iff row_update_iff s_map_of_keyword_any_iff row_update_query_iff
      invalid_arg_map_rejected dest: common_query)

theorem C5_payload_is_required_as_a_map_witness:
  "\<not> contains_p (example_delete example_query_filter) (VKw ''create-row'') \<and>
   \<not> contains_p (example_delete example_query_filter) (VKw ''update-row'') \<and>
   \<not> s_valid Crud_row_create (example_delete example_query_filter) \<and>
   \<not> s_valid Crud_row_update (example_delete example_query_filter) \<and>
   s_valid Crud_row_create example_create"
  using C5_payload_is_required_as_a_map
      [of "example_delete example_query_filter" example_env "VKw ''row/create''" example_world]
    C5_payload_is_required_as_a_map
      [of example_create example_env "VKw ''row/create''" example_world]
  by (simp add: example_delete_def example_create_def base_defs s_keys_req_un_def)

subsection \<open>\<^verbatim>\<open>bulk/delete\<close>\<close>

theorem C6_bulk_delete_counterexample:
  "s_valid Crud_bulk_delete (VMap []) \<and>
   \<not> s_valid Crud_bulk_delete example_batch \<and>
   perform_action example_env (VStr ''bulk/delete'') example_batch example_world =
     (Inl ArityException, example_world)"
  by (simp add: example_batch_def example_delete_def example_query_filter_def
      example_query_no_filter_def spec_defs base_defs call_defs)

text \<open>
  C6, as the code has it. A \<^verbatim>\<open>bulk/delete\<close> argument is valid exactly when it is a
  collection all of whose elements are valid \<^verbatim>\<open>row/delete\<close> maps: a vector of zero or more
  such maps, or the empty map, which is a collection without elements. When the validation
  step meets a batch with an invalid element, it rejects the whole batch with the
  "Invalid Action arg map" exception and the state is as it was: no lookup, no check and
  no method ran for any element.
\<close>

theorem C6_bulk_delete_validates_elementwise:
  "(s_valid Crud_bulk_delete v \<longleftrightarrow>
      (\<exists>xs. v = VVec xs \<and> list_all (s_valid Crud_row_delete) xs) \<or> v = VMap []) \<and>
   (s_valid Crud_bulk_delete (VVec xs) \<longleftrightarrow> list_all (s_valid Crud_row_delete) xs) \<and>
   (x \<in> set xs \<and> \<not> s_valid Crud_row_delete x \<longrightarrow>
      perform_action_body env action Crud_bulk_delete (VVec xs) w =
        (Inl (ExInfo (Invalid_Action_arg_map Crud_bulk_delete (VVec xs))
               (s_explain_data env Crud_bulk_delete (VVec xs))), w))"
proof -
  have a: "s_valid Crud_row_delete = actions_args_crud_row_delete"
    by (rule ext) simp
  have b: "s_valid Crud_bulk_delete u = actions_args_crud_bulk_delete u" for u
    by simp
  have c: "s_valid Crud_bulk_delete (VVec ys) = list_all actions_args_crud_row_delete ys" for ys
    by (simp add: actions_args_crud_bulk_delete_def)
  have d: "\<not> s_valid Crud_bulk_delete (VVec xs)"
    if "x \<in> set xs" and "\<not> actions_args_crud_row_delete x"
    unfolding c using that by (auto simp: list_all_iff)
  show ?thesis
    unfolding a
  proof (intro conjI impI)
    show "s_valid Crud_bulk_delete v \<longleftrightarrow>
        (\<exists>xs. v = VVec xs \<and> list_all actions_args_crud_row_delete xs) \<or> v = VMap []"
      unfolding b by (rule bulk_delete_iff)
    show "s_valid Crud_bulk_delete (VVec xs) \<longleftrightarrow> list_all actions_args_crud_row_delete xs"
      by (rule c)
    show "perform_action_body env action Crud_bulk_delete (VVec xs) w =
        (Inl (ExInfo (Invalid_Action_arg_map Crud_bulk_delete (VVec xs))
               (s_explain_data env Crud_bulk_delete (VVec xs))), w)"
      if "x \<in> set xs \<and> \<not> actions_args_crud_row_delete x"
      using that d by (intro invalid_arg_map_rejected) blast
  qed
qed

theorem C6_bulk_delete_validates_elementwise_witness:
  "example_delete example_query_no_filter \<in>
     set [example_delete example_query_filter, example_delete example_query_no_filter] \<and>
   \<not> s_valid Crud_row_delete (example_delete example_query_no_filter) \<and>
   s_valid Crud_row_delete (example_delete example_query_filter) \<and>
   perform_action_body example_env (VKw ''bulk/delete'') Crud_bulk_delete example_batch
     example_world =
     (Inl (ExInfo (Invalid_Action_arg_map Crud_bulk_delete example_batch) VNil),
      example_world)"
  using C6_bulk_delete_validates_elementwise
      [of example_batch
        "[example_delete example_query_filter, example_delete example_query_no_filter]"
        "example_delete example_query_no_filter" example_env "VKw ''bulk/delete''"
        example_world]
  by (simp add: example_batch_def example_delete_def example_query_filter_def
      example_query_no_filter_def spec_defs base_defs example_env_def)

section \<open>The checks of \<^verbatim>\<open>perform-action!\<close> after validation\<close>

subsection \<open>The global flag\<close>

theorem C1_disabled_call_counterexample:
  "\<not> experimental_enable_actions example_env_off \<and>
   perform_action example_env_off (VStr ''row/create'') (VMap []) example_world =
     (Inl ArityException, example_world) \<and>
   perform_action_body example_env_off (VKw ''row/create'') Crud_row_create (VMap [])
       example_world =
     (Inl (ExInfo (Invalid_Action_arg_map Crud_row_create (VMap [])) VNil), example_world)"
  by (simp add: example_env_off_def example_env_def call_defs perform_action_body_def
      s_invalid_def s_conform_def spec_defs base_defs)

text \<open>
  C1, as the code has it. Validation comes first. For every action, spec and argument map
  that conforms to the spec, when the global flag is off the body of \<^verbatim>\<open>perform-action!\<close>
  fails with "Actions are not enabled." and status code 400, whatever the database table,
  the drivers, the database-local settings, the current user and the registered methods
  are. The state is as it was: the database was not looked up, neither the capability
  check nor the superuser check was asked, and no method of \<^verbatim>\<open>perform-action!*\<close> ran.
\<close>

theorem C1_global_flag_precedes_the_other_checks:
  assumes "\<not> experimental_enable_actions env"
    and "\<not> s_invalid (s_conform sp arg_map)"
  shows "perform_action_body env action sp arg_map w =
           (Inl (ExInfo Actions_are_not_enabled status_400), w) \<and>
         status_code (ExInfo Actions_are_not_enabled status_400) = VInt 400"
  using assms by (simp add: perform_action_body_def status_code_def status_400_def)

theorem C1_global_flag_precedes_the_other_checks_witness:
  "\<not> experimental_enable_actions example_env_off \<and>
   \<not> s_invalid (s_conform Crud_row_create example_create) \<and>
   perform_action_body example_env_off (VKw ''row/create'') Crud_row_create example_create
      example_world_ambient =
     (Inl (ExInfo Actions_are_not_enabled status_400), example_world_ambient)"
proof -
  have a: "\<not> experimental_enable_actions example_env_off"
    by (simp add: example_env_off_def example_env_def)
  have b: "\<not> s_invalid (s_conform Crud_row_create example_create)"
    by (simp add: s_invalid_def s_conform_def example_create_def spec_defs base_defs)
  from C1_global_flag_precedes_the_other_checks [OF a b] a b show ?thesis by simp
qed

subsection \<open>A database that does not exist\<close>

theorem C7_absent_database_counterexample:
  "Database example_env (clj_get example_create_99 (VKw ''database'')) = VNil \<and>
   perform_action example_env (VStr ''row/create'') example_create_99 example_world =
     (Inl ArityException, example_world) \<and>
   perform_action_body example_env (VKw ''row/create'') Crud_row_create example_create_99
       example_world =
     (Inl (ExInfo (Database_does_not_support_actions VNil VNil VNil)
            (VMap [(VKw ''status-code'', VInt 400), (VKw ''database-id'', VNil)])),
      \<lparr>database_local_values = VNil,
       journal = [Database_lookup (VInt 99), Database_supports VNil (VKw ''actions'') VNil]\<rparr>)"
  by (simp add: example_env_def example_create_99_def example_world_def call_defs
      perform_action_body_def s_invalid_def s_conform_def spec_defs base_defs log_event_def)

text \<open>
  C7, as the code has it. \<^verbatim>\<open>perform-action!\<close> has no not-found check. When the argument
  map is valid, the global flag is on and \<^verbatim>\<open>Database\<close> returns nil for the identifier, the
  body takes the driver and the settings of nil, which are nil, and asks the capability
  check about a nil driver and a nil database. It then fails with what that check throws,
  or with the 400 "does not support actions" failure when the check says no, or, when the
  check says yes, with the 400 "Actions are not enabled for Database" failure, since nil
  settings hold no flag. The lookup and the capability check are the only collaborators
  called; no method of \<^verbatim>\<open>perform-action!*\<close> runs.
\<close>

theorem C7_absent_database_reaches_the_capability_check:
  assumes "\<not> s_invalid (s_conform sp arg_map)"
    and "experimental_enable_actions env"
    and "database_id = clj_get arg_map (VKw ''database'')"
    and "Database env database_id = VNil"
  shows "perform_action_body env action sp arg_map w =
     ((case database_supports_p env VNil (VKw ''actions'') VNil of
         Inl e \<Rightarrow> Inl e
       | Inr False \<Rightarrow>
           Inl (ExInfo (Database_does_not_support_actions VNil VNil VNil)
                 (VMap [(VKw ''status-code'', VInt 400), (VKw ''database-id'', VNil)]))
       | Inr True \<Rightarrow>
           Inl (ExInfo (Actions_are_not_enabled_for_Database database_id) status_400)),
      w\<lparr>journal := journal w @
           [Database_lookup database_id, Database_supports VNil (VKw ''actions'') VNil]\<rparr>)"
  using assms
  by (simp add: perform_action_body_def Let_def log_event_def
      binding_database_local_values_def database_enable_actions_def
      split: sum.split bool.split)

theorem C7_absent_database_reaches_the_capability_check_witness:
  "\<not> s_invalid (s_conform Crud_row_create example_create_99) \<and>
   experimental_enable_actions example_env \<and>
   Database example_env (VInt 99) = VNil \<and>
   fst (perform_action_body example_env (VKw ''row/create'') Crud_row_create example_create_99
       example_world) =
     Inl (ExInfo (Database_does_not_support_actions VNil VNil VNil)
            (VMap [(VKw ''status-code'', VInt 400), (VKw ''database-id'', VNil)]))"
proof -
  have a: "\<not> s_invalid (s_conform Crud_row_create example_create_99)"
    by (simp add: s_invalid_def s_conform_def example_create_99_def spec_defs base_defs)
  have b: "experimental_enable_actions example_env"
    by (simp add: example_env_def)
  have c: "VInt 99 = clj_get example_create_99 (VKw ''database'')"
    by (simp add: example_create_99_def)
  have d: "Database example_env (VInt 99) = VNil"
    by (simp add: example_env_def)
  have e: "database_supports_p example_env VNil (VKw ''actions'') VNil = Inr False"
    by (simp add: example_env_def)
  from C7_absent_database_reaches_the_capability_check
    [OF a b c d, of "VKw ''row/create''" example_world] a b d e
  show ?thesis by simp
qed

subsection \<open>The database-local settings\<close>

text \<open>
  The \<^verbatim>\<open>binding\<close> form in the body of the \<^verbatim>\<open>let\<close>. With \<open>db\<close> the database of the
  argument map, \<open>w2\<close> the state after the lookup and the capability check, and \<open>w3\<close> that
  state with the settings of \<open>db\<close> bound to the dynamic var: whatever the body returns, by
  value or by exception, the dynamic var holds afterwards what it held before. Once the
  capability check has passed, the per-database flag is read in \<open>w3\<close>; when it is off the
  body fails and nothing but the journal of the two collaborator calls has changed; when
  it is on, \<^verbatim>\<open>perform-action!*\<close> runs in \<open>w3\<close> (after the superuser check when there is a
  current user), and the var is put back on what it returns.
\<close>

lemma perform_action_body_binds_database_local_values:
  assumes "db = Database env (clj_get arg_map (VKw ''database''))"
    and "driver = clj_get db (VKw ''engine'')"
    and "db_settings = clj_get db (VKw ''settings'')"
    and "w2 = w\<lparr>journal := journal w @
           [Database_lookup (clj_get arg_map (VKw ''database'')),
            Database_supports driver (VKw ''actions'') db]\<rparr>"
    and "w3 = w2\<lparr>database_local_values := db_settings\<rparr>"
  shows "database_local_values (snd (perform_action_body env action sp arg_map w)) =
           database_local_values w \<and>
         (\<not> s_invalid (s_conform sp arg_map) \<and> experimental_enable_actions env \<and>
          database_supports_p env driver (VKw ''actions'') db = Inr True \<longrightarrow>
            database_enable_actions w3 =
              (clj_get db_settings (VKw ''database-enable-actions'') = VBool True) \<and>
            (\<not> database_enable_actions w3 \<longrightarrow>
               perform_action_body env action sp arg_map w =
                 (Inl (ExInfo (Actions_are_not_enabled_for_Database
                         (clj_get arg_map (VKw ''database''))) status_400), w2)) \<and>
            (database_enable_actions w3 \<and> \<not> truthy (current_user env) \<longrightarrow>
               perform_action_body env action sp arg_map w =
                 (case perform_action_star env [driver, action, db, arg_map] w3 of
                    (r, w') \<Rightarrow> (r, w'\<lparr>database_local_values := database_local_values w\<rparr>))) \<and>
            (database_enable_actions w3 \<and> truthy (current_user env) \<and>
             check_superuser env = None \<longrightarrow>
               perform_action_body env action sp arg_map w =
                 (case perform_action_star env [driver, action, db, arg_map]
                         (log_event Check_superuser w3) of
                    (r, w') \<Rightarrow> (r, w'\<lparr>database_local_values := database_local_values w\<rparr>))))"
proof (intro conjI impI)
  show "database_local_values (snd (perform_action_body env action sp arg_map w)) =
      database_local_values w"
    by (simp add: perform_action_body_def Let_def log_event_def
        binding_database_local_values_def split: sum.split bool.split prod.split)
next
  assume h: "\<not> s_invalid (s_conform sp arg_map) \<and> experimental_enable_actions env \<and>
      database_supports_p env driver (VKw ''actions'') db = Inr True"
  show "database_enable_actions w3 =
      (clj_get db_settings (VKw ''database-enable-actions'') = VBool True)"
    using assms by (simp add: database_enable_actions_def)
  show "perform_action_body env action sp arg_map w =
      (Inl (ExInfo (Actions_are_not_enabled_for_Database
              (clj_get arg_map (VKw ''database''))) status_400), w2)"
    if "\<not> database_enable_actions w3"
    using assms h that
    by (simp add: perform_action_body_def Let_def log_event_def
        binding_database_local_values_def database_enable_actions_def)
  show "perform_action_body env action sp arg_map w =
      (case perform_action_star env [driver, action, db, arg_map] w3 of
         (r, w') \<Rightarrow> (r, w'\<lparr>database_local_values := database_local_values w\<rparr>))"
    if "database_enable_actions w3 \<and> \<not> truthy (current_user env)"
    using assms h that
    by (simp add: perform_action_body_def Let_def log_event_def
        binding_database_local_values_def database_enable_actions_def)
  show "perform_action_body env action sp arg_map w =
      (case perform_action_star env [driver, action, db, arg_map]
              (log_event Check_superuser w3) of
         (r, w') \<Rightarrow> (r, w'\<lparr>database_local_values := database_local_values w\<rparr>))"
    if "database_enable_actions w3 \<and> truthy (current_user env) \<and> check_superuser env = None"
    using assms h that
    by (simp add: perform_action_body_def Let_def log_event_def
        binding_database_local_values_def database_enable_actions_def)
qed

text \<open>
  C9, evaluated. The request is a valid \<^verbatim>\<open>row/create\<close> for database 2, whose own settings
  enable actions, while the dynamic var holds values that disable them; the global flag is
  on, the driver supports actions and a method is registered. The body of the \<^verbatim>\<open>let\<close>
  would read the flag from the settings of the database, run the method under them and
  put the var back, although the method resets it. \<^verbatim>\<open>perform-action!\<close> itself raises the
  arity exception of its normalization step first: no lookup is made, the settings of the
  database are never bound, the per-database flag is never read and no method runs.
\<close>

theorem C9_binding_is_never_reached:
  "perform_action example_env (VKw ''row/create'') example_create example_world_ambient =
     (Inl ArityException, example_world_ambient) \<and>
   journal (snd (perform_action example_env (VKw ''row/create'') example_create
       example_world_ambient)) = [] \<and>
   clj_get (clj_get example_db (VKw ''settings'')) (VKw ''database-enable-actions'') =
     VBool True \<and>
   \<not> database_enable_actions example_world_ambient \<and>
   perform_action_body example_env (VKw ''row/create'') Crud_row_create example_create
       example_world_ambient =
     (Inr (VMap [(VKw ''created-row'', VInt 1)]),
      \<lparr>database_local_values = database_local_values example_world_ambient,
       journal =
         [Database_lookup (VInt 2),
          Database_supports (VKw ''h2'') (VKw ''actions'') example_db,
          Method_invoked (VVec [VKw ''h2'', VKw ''row/create''])
            [VKw ''h2'', VKw ''row/create'', example_db, example_create],
          Effect (VKw ''row-written'')]\<rparr>)"
proof -
  have a: "\<not> s_invalid (s_conform Crud_row_create example_create)"
    by (simp add: s_invalid_def s_conform_def example_create_def spec_defs base_defs)
  have b: "experimental_enable_actions example_env"
    by (simp add: example_env_def)
  have c: "Database example_env (clj_get example_create (VKw ''database'')) = example_db"
    by (simp add: example_env_def example_create_def)
  have d: "clj_get example_db (VKw ''engine'') = VKw ''h2''"
    by (simp add: example_db_def)
  have e: "database_supports_p example_env (VKw ''h2'') (VKw ''actions'') example_db = Inr True"
    by (simp add: example_env_def)
  have f: "\<not> truthy (current_user example_env)"
    by (simp add: example_env_def truthy_def)
  have g: "\<not> database_enable_actions example_world_ambient"
    by (simp add: database_enable_actions_def example_world_ambient_def)
  have s: "clj_get example_db (VKw ''settings'') =
      VMap [(VKw ''database-enable-actions'', VBool True)]"
    by (simp add: example_db_def)
  have i: "clj_get example_create (VKw ''database'') = VInt 2"
    by (simp add: example_create_def)
  have m: "perform_action_star example_env
       [VKw ''h2'', VKw ''row/create'', example_db, example_create] w =
     example_handler [VKw ''h2'', VKw ''row/create'', example_db, example_create]
       (log_event (Method_invoked (VVec [VKw ''h2'', VKw ''row/create''])
          [VKw ''h2'', VKw ''row/create'', example_db, example_create]) w)" for w
    by (simp add: perform_action_star_def perform_action_star_dispatch_def example_env_def)
  have p: "perform_action example_env (VKw ''row/create'') example_create
      example_world_ambient = (Inl ArityException, example_world_ambient)"
    by (simp add: call_defs)
  have j: "journal example_world_ambient = []"
    by (simp add: example_world_ambient_def)
  have body: "perform_action_body example_env (VKw ''row/create'') Crud_row_create
       example_create example_world_ambient =
     (Inr (VMap [(VKw ''created-row'', VInt 1)]),
      \<lparr>database_local_values = database_local_values example_world_ambient,
       journal =
         [Database_lookup (VInt 2),
          Database_supports (VKw ''h2'') (VKw ''actions'') example_db,
          Method_invoked (VVec [VKw ''h2'', VKw ''row/create''])
            [VKw ''h2'', VKw ''row/create'', example_db, example_create],
          Effect (VKw ''row-written'')]\<rparr>)"
    using perform_action_body_binds_database_local_values
        [OF c [symmetric] refl refl refl refl,
          of "VKw ''row/create''" Crud_row_create example_world_ambient]
      a b e f
    by (simp add: d s m i database_enable_actions_def example_handler_def log_event_def
        example_world_ambient_def)
  show ?thesis
    using p j g body by (simp add: s)
qed

section \<open>Methods that declare fewer parameters than they are called with\<close>

text \<open>What the \<^verbatim>\<open>:default\<close> method of \<^verbatim>\<open>perform-action!*\<close> computes on the three arguments it
  declares: 404 for an action that no driver implements, 400 for one that some driver
  does.\<close>

lemma perform_action_star_default_three_args:
  "perform_action_star_default env [driver, action, arg_map] w =
     (if keyword action \<notin> known_actions env
      then (Inl (ExInfo (Unknown_Action (keyword action) (known_actions env)) status_404), w)
      else (Inl (ExInfo (Action_is_not_supported_for_Databases (keyword action) driver)
                  status_400), w))"
  by (simp add: perform_action_star_default_def Let_def)

text \<open>The multimethod is called with four arguments, as its dispatch function wants; when
  no method is registered for the driver and the action, the \<^verbatim>\<open>:default\<close> method gets the
  four and raises.\<close>

lemma perform_action_star_no_method:
  "dispatch_on_initialized_driver env driver = Inr d \<Longrightarrow>
   get_method (registered_methods env) (d # driver_parents env d) (keyword action) = None \<Longrightarrow>
   perform_action_star env [driver, action, db, arg_map] w = (Inl ArityException, w)"
  by (simp add: perform_action_star_def perform_action_star_dispatch_def
      perform_action_star_default_def)

text \<open>
  C2, evaluated. In the example environment only \<^verbatim>\<open>[:h2 :row/create]\<close> is registered.
  \<^verbatim>\<open>:row/create\<close> for \<^verbatim>\<open>:postgres\<close> is a known action without a method for the driver, and
  \<^verbatim>\<open>:row/explode\<close> is known to no driver; in both cases \<^verbatim>\<open>perform-action!*\<close> raises an arity
  exception where the 400 and the 404 were meant, and \<^verbatim>\<open>perform-action!\<close> raises one before
  it gets there.
\<close>

theorem C2_default_method_raises_arity_exception:
  "known_actions example_env = {VKw ''row/create''} \<and>
   get_method (registered_methods example_env) [VKw ''postgres''] (VKw ''row/create'') = None \<and>
   perform_action_star example_env
       [VKw ''postgres'', VKw ''row/create'', example_db, example_create] example_world =
     (Inl ArityException, example_world) \<and>
   get_method (registered_methods example_env) [VKw ''h2''] (VKw ''row/explode'') = None \<and>
   perform_action_star example_env
       [VKw ''h2'', VKw ''row/explode'', example_db, example_create] example_world =
     (Inl ArityException, example_world) \<and>
   perform_action example_env (VKw ''row/explode'') example_create example_world =
     (Inl ArityException, example_world)"
  by (simp add: example_env_def known_actions_def method_keys_def perform_action_star_def
      perform_action_star_dispatch_def perform_action_star_default_def call_defs)

text \<open>What \<^verbatim>\<open>normalize-as-mbql-query\<close> does with a query that the schema rejects: the
  message of the schema's exception, its data under \<^verbatim>\<open>:exception-data\<close>, status code 400.\<close>

lemma normalize_as_mbql_query_rejects:
  "mbql_normalize env q = Inr n \<Longrightarrow>
   clj_assoc n (VKw ''type'') (VKw ''query'') = Inr stamped \<Longrightarrow>
   schema_validate_Query env stamped = Some e \<Longrightarrow>
   normalize_as_mbql_query env q =
     Inl (ExInfo (ex_message e)
           (VMap [(VKw ''exception-data'', ex_data e), (VKw ''status-code'', VInt 400)]))"
  by (simp add: normalize_as_mbql_query_def)

text \<open>
  C8, evaluated. The request body has no inner query, and \<^verbatim>\<open>normalize-as-mbql-query\<close>
  would reject it with the schema's message and status code 400. The multimethod never
  calls it: with the one argument that \<^verbatim>\<open>perform-action!\<close> passes the dispatch function
  raises, with two arguments the one-parameter method for \<^verbatim>\<open>:row/create\<close> raises, and
  \<^verbatim>\<open>perform-action!\<close> ends in the arity exception.
\<close>

theorem C8_row_normalizer_is_never_reached:
  "normalize_as_mbql_query example_env_strict example_malformed =
     Inl (ExInfo (Message ''Value does not match schema'')
           (VMap [(VKw ''exception-data'', ex_data example_schema_error),
                  (VKw ''status-code'', VInt 400)])) \<and>
   normalize_action_arg_map example_env_strict [example_malformed] = Inl ArityException \<and>
   normalize_action_arg_map example_env_strict [VKw ''row/create'', example_malformed] =
     Inl ArityException \<and>
   perform_action example_env_strict (VKw ''row/create'') example_malformed example_world =
     (Inl ArityException, example_world)"
  by (simp add: example_env_strict_def example_env_def example_malformed_def
      example_schema_error_def normalize_as_mbql_query_def call_defs
      normalize_action_arg_map_row_create_def)

end
